theory Spec2Isabelle
  imports Complex_Main
begin

section \<open>Numbers: float64\<close>

text \<open>
  The engine computes on Go's \<open>float64\<close>. The model keeps the special values of the
  type (both infinities and NaN) and takes the finite values to be real numbers with
  exact arithmetic: rounding, overflow, underflow and the sign of zero are not modelled.
  The operations on special values follow IEEE 754, which Go's operators implement.
\<close>

datatype float64 = Fin real | PInf | NInf | NaN

fun fneg :: "float64 \<Rightarrow> float64" where
  "fneg (Fin x) = Fin (- x)"
| "fneg PInf = NInf"
| "fneg NInf = PInf"
| "fneg NaN = NaN"

fun fadd :: "float64 \<Rightarrow> float64 \<Rightarrow> float64" where
  "fadd NaN b = NaN"
| "fadd a NaN = NaN"
| "fadd (Fin x) (Fin y) = Fin (x + y)"
| "fadd (Fin x) PInf = PInf"
| "fadd (Fin x) NInf = NInf"
| "fadd PInf (Fin y) = PInf"
| "fadd NInf (Fin y) = NInf"
| "fadd PInf PInf = PInf"
| "fadd NInf NInf = NInf"
| "fadd PInf NInf = NaN"
| "fadd NInf PInf = NaN"

definition fsub :: "float64 \<Rightarrow> float64 \<Rightarrow> float64" where
  "fsub a b = fadd a (fneg b)"

text \<open>The sign of an infinity times (or divided by) a finite number.\<close>

definition signed_inf :: "bool \<Rightarrow> float64" where
  "signed_inf positive = (if positive then PInf else NInf)"

fun fmul :: "float64 \<Rightarrow> float64 \<Rightarrow> float64" where
  "fmul NaN b = NaN"
| "fmul a NaN = NaN"
| "fmul (Fin x) (Fin y) = Fin (x * y)"
| "fmul (Fin x) PInf = (if x = 0 then NaN else signed_inf (0 < x))"
| "fmul (Fin x) NInf = (if x = 0 then NaN else signed_inf (x < 0))"
| "fmul PInf (Fin y) = (if y = 0 then NaN else signed_inf (0 < y))"
| "fmul NInf (Fin y) = (if y = 0 then NaN else signed_inf (y < 0))"
| "fmul PInf PInf = PInf"
| "fmul NInf NInf = PInf"
| "fmul PInf NInf = NInf"
| "fmul NInf PInf = NInf"

fun fdiv :: "float64 \<Rightarrow> float64 \<Rightarrow> float64" where
  "fdiv NaN b = NaN"
| "fdiv a NaN = NaN"
| "fdiv (Fin x) (Fin y) =
     (if y \<noteq> 0 then Fin (x / y)
      else if x = 0 then NaN
      else signed_inf (0 < x))"
| "fdiv (Fin x) PInf = Fin 0"
| "fdiv (Fin x) NInf = Fin 0"
| "fdiv PInf (Fin y) = signed_inf (0 \<le> y)"
| "fdiv NInf (Fin y) = signed_inf (y < 0)"
| "fdiv PInf PInf = NaN"
| "fdiv NInf NInf = NaN"
| "fdiv PInf NInf = NaN"
| "fdiv NInf PInf = NaN"

text \<open>Go's \<open>==\<close> and \<open><=\<close>: every comparison with NaN is false.\<close>

fun feq :: "float64 \<Rightarrow> float64 \<Rightarrow> bool" where
  "feq NaN b = False"
| "feq a NaN = False"
| "feq a b = (a = b)"

fun fle :: "float64 \<Rightarrow> float64 \<Rightarrow> bool" where
  "fle NaN b = False"
| "fle a NaN = False"
| "fle NInf b = True"
| "fle a PInf = True"
| "fle (Fin x) (Fin y) = (x \<le> y)"
| "fle (Fin x) NInf = False"
| "fle PInf (Fin y) = False"
| "fle PInf NInf = False"

subsection \<open>The functions of package math\<close>

text \<open>
  \<open>math.Sin\<close>, \<open>math.Cos\<close>, \<open>math.Exp\<close>, \<open>math.Log\<close> and \<open>math.Pow\<close> belong to Go's
  standard library. They are modelled from the special cases that their documentation
  lists, and by the real functions on the finite arguments where those are defined.
\<close>

fun math_Sin :: "float64 \<Rightarrow> float64" where
  "math_Sin (Fin x) = Fin (sin x)"
| "math_Sin a = NaN"

fun math_Cos :: "float64 \<Rightarrow> float64" where
  "math_Cos (Fin x) = Fin (cos x)"
| "math_Cos a = NaN"

fun math_Exp :: "float64 \<Rightarrow> float64" where
  "math_Exp (Fin x) = Fin (exp x)"
| "math_Exp PInf = PInf"
| "math_Exp NInf = Fin 0"
| "math_Exp NaN = NaN"

fun math_Log :: "float64 \<Rightarrow> float64" where
  "math_Log (Fin x) = (if 0 < x then Fin (ln x) else if x = 0 then NInf else NaN)"
| "math_Log PInf = PInf"
| "math_Log NInf = NaN"
| "math_Log NaN = NaN"

text \<open>An odd integer, as a real number.\<close>

definition odd_integer :: "real \<Rightarrow> bool" where
  "odd_integer y = (y = of_int \<lfloor>y\<rfloor> \<and> odd \<lfloor>y\<rfloor>)"

definition is_integer :: "real \<Rightarrow> bool" where
  "is_integer y = (y = of_int \<lfloor>y\<rfloor>)"

text \<open>
  \<open>math.Pow(x, y)\<close>, in the order of the special cases of its documentation:
  \<open>Pow(x, 0) = 1\<close> and \<open>Pow(1, y) = 1\<close> for every argument, also NaN; then NaN arguments;
  a zero base; an infinite exponent; an infinite base; a negative base, which has a
  power only for an integer exponent.
\<close>

fun math_Pow :: "float64 \<Rightarrow> float64 \<Rightarrow> float64" where
  "math_Pow x (Fin y) =
     (if y = 0 then Fin 1
      else case x of
        NaN \<Rightarrow> NaN
      | PInf \<Rightarrow> (if 0 < y then PInf else Fin 0)
      | NInf \<Rightarrow> (if 0 < y then (if odd_integer y then NInf else PInf) else Fin 0)
      | Fin a \<Rightarrow>
          (if a = 1 then Fin 1
           else if a = 0 then (if y < 0 then PInf else Fin 0)
           else if 0 < a then Fin (a powr y)
           else if is_integer y then Fin (a powi \<lfloor>y\<rfloor>)
           else NaN))"
| "math_Pow x PInf =
     (case x of
        NaN \<Rightarrow> NaN
      | PInf \<Rightarrow> PInf
      | NInf \<Rightarrow> PInf
      | Fin a \<Rightarrow> (if \<bar>a\<bar> = 1 then Fin 1 else if 1 < \<bar>a\<bar> then PInf else Fin 0))"
| "math_Pow x NInf =
     (case x of
        NaN \<Rightarrow> NaN
      | PInf \<Rightarrow> Fin 0
      | NInf \<Rightarrow> Fin 0
      | Fin a \<Rightarrow> (if \<bar>a\<bar> = 1 then Fin 1 else if 1 < \<bar>a\<bar> then Fin 0 else PInf))"
| "math_Pow x NaN = (if x = Fin 1 then Fin 1 else NaN)"

section \<open>Data model\<close>

text \<open>
  \<open>DualNumber\<close> and \<open>Variable\<close> are the two structs of package autodiff. A panic is an
  error value that carries the message of the \<open>panic\<close> call; reading through a pointer
  that refers to no Variable is Go's nil dereference.
\<close>

record DualNumber =
  Value :: float64
  Deriv :: float64

record Variable =
  dual :: DualNumber

datatype error = Panic string | NilDereference | IndexOutOfRange

text \<open>The error kinds of the specification, by the panic that raises them.\<close>

definition DivisionByZero :: error where
  "DivisionByZero = Panic ''division by zero''"

definition DomainError :: "error \<Rightarrow> bool" where
  "DomainError e = (e = Panic ''log of non-positive number'' \<or> e = Panic ''invalid power operation'')"

section \<open>The math helpers of the package\<close>

definition sin_f :: "float64 \<Rightarrow> float64" where
  "sin_f x = math_Sin x"

definition cos_f :: "float64 \<Rightarrow> float64" where
  "cos_f x = math_Cos x"

definition exp_f :: "float64 \<Rightarrow> float64" where
  "exp_f x = math_Exp x"

definition log_f :: "float64 \<Rightarrow> float64" where
  "log_f x = math_Log x"

definition pow_f :: "float64 \<Rightarrow> float64 \<Rightarrow> float64" where
  "pow_f x y = math_Pow x y"

section \<open>The Variable that each function builds\<close>

text \<open>
  Every constructor and every pure function returns \<open>&Variable{dual: DualNumber{...}}\<close>.
  The definitions of this section are those struct literals, as functions of the structs
  that the arguments point to; the next section puts them on a heap.
\<close>

definition NewVariable_val :: "float64 \<Rightarrow> float64 \<Rightarrow> Variable" where
  "NewVariable_val val deriv = \<lparr>dual = \<lparr>Value = val, Deriv = deriv\<rparr>\<rparr>"

definition NewScalar_val :: "float64 \<Rightarrow> Variable" where
  "NewScalar_val val = \<lparr>dual = \<lparr>Value = val, Deriv = Fin 0\<rparr>\<rparr>"

definition NewInput_val :: "float64 \<Rightarrow> Variable" where
  "NewInput_val val = \<lparr>dual = \<lparr>Value = val, Deriv = Fin 1\<rparr>\<rparr>"

definition Sin_val :: "Variable \<Rightarrow> Variable" where
  "Sin_val v = \<lparr>dual = \<lparr>
     Value = sin_f (Value (dual v)),
     Deriv = fmul (cos_f (Value (dual v))) (Deriv (dual v))\<rparr>\<rparr>"

definition Cos_val :: "Variable \<Rightarrow> Variable" where
  "Cos_val v = \<lparr>dual = \<lparr>
     Value = cos_f (Value (dual v)),
     Deriv = fmul (fneg (sin_f (Value (dual v)))) (Deriv (dual v))\<rparr>\<rparr>"

definition Exp_val :: "Variable \<Rightarrow> Variable" where
  "Exp_val v =
     (let expVal = exp_f (Value (dual v))
      in \<lparr>dual = \<lparr>Value = expVal, Deriv = fmul expVal (Deriv (dual v))\<rparr>\<rparr>)"

definition Log_val :: "Variable \<Rightarrow> error + Variable" where
  "Log_val v =
     (if fle (Value (dual v)) (Fin 0) then Inl (Panic ''log of non-positive number'')
      else Inr \<lparr>dual = \<lparr>
        Value = log_f (Value (dual v)),
        Deriv = fdiv (Deriv (dual v)) (Value (dual v))\<rparr>\<rparr>)"

definition Pow_val :: "Variable \<Rightarrow> float64 \<Rightarrow> error + Variable" where
  "Pow_val v exponent =
     (if feq (Value (dual v)) (Fin 0) \<and> fle exponent (Fin 0)
      then Inl (Panic ''invalid power operation'')
      else let powVal = pow_f (Value (dual v)) (fsub exponent (Fin 1))
           in Inr \<lparr>dual = \<lparr>
                Value = fmul powVal (Value (dual v)),
                Deriv = fmul (fmul exponent powVal) (Deriv (dual v))\<rparr>\<rparr>)"

definition Add_val :: "Variable \<Rightarrow> Variable \<Rightarrow> Variable" where
  "Add_val v1 v2 = \<lparr>dual = \<lparr>
     Value = fadd (Value (dual v1)) (Value (dual v2)),
     Deriv = fadd (Deriv (dual v1)) (Deriv (dual v2))\<rparr>\<rparr>"

definition Mul_val :: "Variable \<Rightarrow> Variable \<Rightarrow> Variable" where
  "Mul_val v1 v2 = \<lparr>dual = \<lparr>
     Value = fmul (Value (dual v1)) (Value (dual v2)),
     Deriv = fadd (fmul (Deriv (dual v1)) (Value (dual v2)))
                  (fmul (Value (dual v1)) (Deriv (dual v2)))\<rparr>\<rparr>"

section \<open>Variables behind pointers\<close>

text \<open>
  The API passes \<open>*Variable\<close>. A heap is the list of the Variables allocated so far and a
  pointer is an index into it, so that a new Variable gets the next index and two
  pointers alias exactly when they are equal. An index beyond the heap stands for the
  nil pointer: reading a field through it panics.
\<close>

type_synonym ptr = nat
type_synonym heap = "Variable list"

definition valid :: "heap \<Rightarrow> ptr \<Rightarrow> bool" where
  "valid h p = (p < length h)"

definition alloc :: "Variable \<Rightarrow> heap \<Rightarrow> ptr \<times> heap" where
  "alloc v h = (length h, h @ [v])"

definition get_Value :: "heap \<Rightarrow> ptr \<Rightarrow> float64" where
  "get_Value h p = Value (dual (h ! p))"

definition get_Deriv :: "heap \<Rightarrow> ptr \<Rightarrow> float64" where
  "get_Deriv h p = Deriv (dual (h ! p))"

definition put_Value :: "ptr \<Rightarrow> float64 \<Rightarrow> heap \<Rightarrow> heap" where
  "put_Value p x h = h[p := (h ! p)\<lparr>dual := (dual (h ! p))\<lparr>Value := x\<rparr>\<rparr>]"

definition put_Deriv :: "ptr \<Rightarrow> float64 \<Rightarrow> heap \<Rightarrow> heap" where
  "put_Deriv p x h = h[p := (h ! p)\<lparr>dual := (dual (h ! p))\<lparr>Deriv := x\<rparr>\<rparr>]"

subsection \<open>Constructors and accessors\<close>

definition NewVariable :: "float64 \<Rightarrow> float64 \<Rightarrow> heap \<Rightarrow> ptr \<times> heap" where
  "NewVariable val deriv h = alloc (NewVariable_val val deriv) h"

definition NewScalar :: "float64 \<Rightarrow> heap \<Rightarrow> ptr \<times> heap" where
  "NewScalar val h = alloc (NewScalar_val val) h"

definition NewInput :: "float64 \<Rightarrow> heap \<Rightarrow> ptr \<times> heap" where
  "NewInput val h = alloc (NewInput_val val) h"

definition Variable_Value :: "ptr \<Rightarrow> heap \<Rightarrow> error + float64" where
  "Variable_Value v h = (if valid h v then Inr (get_Value h v) else Inl NilDereference)"

definition Variable_Deriv :: "ptr \<Rightarrow> heap \<Rightarrow> error + float64" where
  "Variable_Deriv v h = (if valid h v then Inr (get_Deriv h v) else Inl NilDereference)"

subsection \<open>Mutating operators\<close>

text \<open>
  A method returns the heap it leaves behind together with its outcome, \<open>None\<close> for a
  normal return and \<open>Some\<close> error for a panic, so that what a failed call has written is
  part of the result. Each method is its assignments in the source's order; the second
  assignment reads the heap that the first one wrote, which is what matters when \<open>v\<close>
  and \<open>v2\<close> alias.
\<close>

definition Variable_Add :: "ptr \<Rightarrow> ptr \<Rightarrow> heap \<Rightarrow> error option \<times> heap" where
  "Variable_Add v v2 h =
     (if \<not> valid h v \<or> \<not> valid h v2 then (Some NilDereference, h)
      else let h1 = put_Value v (fadd (get_Value h v) (get_Value h v2)) h;
               h2 = put_Deriv v (fadd (get_Deriv h1 v) (get_Deriv h1 v2)) h1
           in (None, h2))"

definition Variable_Sub :: "ptr \<Rightarrow> ptr \<Rightarrow> heap \<Rightarrow> error option \<times> heap" where
  "Variable_Sub v v2 h =
     (if \<not> valid h v \<or> \<not> valid h v2 then (Some NilDereference, h)
      else let h1 = put_Value v (fsub (get_Value h v) (get_Value h v2)) h;
               h2 = put_Deriv v (fsub (get_Deriv h1 v) (get_Deriv h1 v2)) h1
           in (None, h2))"

definition Variable_Mul :: "ptr \<Rightarrow> ptr \<Rightarrow> heap \<Rightarrow> error option \<times> heap" where
  "Variable_Mul v v2 h =
     (if \<not> valid h v \<or> \<not> valid h v2 then (Some NilDereference, h)
      else let h1 = put_Deriv v (fadd (fmul (get_Deriv h v) (get_Value h v2))
                                      (fmul (get_Value h v) (get_Deriv h v2))) h;
               h2 = put_Value v (fmul (get_Value h1 v) (get_Value h1 v2)) h1
           in (None, h2))"

text \<open>The divisor is read, and tested, before the receiver is touched.\<close>

definition Variable_Div :: "ptr \<Rightarrow> ptr \<Rightarrow> heap \<Rightarrow> error option \<times> heap" where
  "Variable_Div v v2 h =
     (if \<not> valid h v2 then (Some NilDereference, h)
      else if feq (get_Value h v2) (Fin 0) then (Some (Panic ''division by zero''), h)
      else if \<not> valid h v then (Some NilDereference, h)
      else let h1 = put_Deriv v
                      (fdiv (fsub (fmul (get_Deriv h v) (get_Value h v2))
                                  (fmul (get_Value h v) (get_Deriv h v2)))
                            (fmul (get_Value h v2) (get_Value h v2))) h;
               h2 = put_Value v (fdiv (get_Value h1 v) (get_Value h1 v2)) h1
           in (None, h2))"

subsection \<open>Elementary functions and pure operators\<close>

text \<open>
  A pure function returns the pointer to the Variable it allocated, or the panic, and
  the heap after the call.
\<close>

definition Sin :: "ptr \<Rightarrow> heap \<Rightarrow> (error + ptr) \<times> heap" where
  "Sin v h =
     (if valid h v then (let (p, h') = alloc (Sin_val (h ! v)) h in (Inr p, h'))
      else (Inl NilDereference, h))"

definition Cos :: "ptr \<Rightarrow> heap \<Rightarrow> (error + ptr) \<times> heap" where
  "Cos v h =
     (if valid h v then (let (p, h') = alloc (Cos_val (h ! v)) h in (Inr p, h'))
      else (Inl NilDereference, h))"

definition Exp :: "ptr \<Rightarrow> heap \<Rightarrow> (error + ptr) \<times> heap" where
  "Exp v h =
     (if valid h v then (let (p, h') = alloc (Exp_val (h ! v)) h in (Inr p, h'))
      else (Inl NilDereference, h))"

definition Log :: "ptr \<Rightarrow> heap \<Rightarrow> (error + ptr) \<times> heap" where
  "Log v h =
     (if valid h v
      then (case Log_val (h ! v) of
              Inl e \<Rightarrow> (Inl e, h)
            | Inr r \<Rightarrow> (let (p, h') = alloc r h in (Inr p, h')))
      else (Inl NilDereference, h))"

definition Pow_fun :: "ptr \<Rightarrow> float64 \<Rightarrow> heap \<Rightarrow> (error + ptr) \<times> heap" where
  "Pow_fun v exponent h =
     (if valid h v
      then (case Pow_val (h ! v) exponent of
              Inl e \<Rightarrow> (Inl e, h)
            | Inr r \<Rightarrow> (let (p, h') = alloc r h in (Inr p, h')))
      else (Inl NilDereference, h))"

definition Add :: "ptr \<Rightarrow> ptr \<Rightarrow> heap \<Rightarrow> (error + ptr) \<times> heap" where
  "Add v1 v2 h =
     (if valid h v1 \<and> valid h v2
      then (let (p, h') = alloc (Add_val (h ! v1) (h ! v2)) h in (Inr p, h'))
      else (Inl NilDereference, h))"

definition Mul :: "ptr \<Rightarrow> ptr \<Rightarrow> heap \<Rightarrow> (error + ptr) \<times> heap" where
  "Mul v1 v2 h =
     (if valid h v1 \<and> valid h v2
      then (let (p, h') = alloc (Mul_val (h ! v1) (h ! v2)) h in (Inr p, h'))
      else (Inl NilDereference, h))"

section \<open>The gradient driver\<close>

text \<open>
  \<open>Gradient\<close> allocates its Variables afresh in every pass and keeps none of them, and
  the function \<open>f\<close> it is given is required to be pure. So the driver is modelled on the
  Variables themselves: a \<open>*Variable\<close> is \<open>Some\<close> Variable or \<open>None\<close> for nil (the value
  that \<open>make\<close> fills a slice with), and \<open>f\<close> returns a pointer or panics.
\<close>

type_synonym objective = "Variable option list \<Rightarrow> error + Variable option"

text \<open>The inner loop, \<open>for j := range vars\<close>, from index \<open>j\<close> on.\<close>

function Gradient_vars ::
  "float64 list \<Rightarrow> nat \<Rightarrow> nat \<Rightarrow> Variable option list \<Rightarrow> error + Variable option list" where
  "Gradient_vars inputs i j vars =
     (if j < length vars then
        (if j < length inputs then
           Gradient_vars inputs i (Suc j)
             (vars[j := Some (if i = j then NewInput_val (inputs ! j)
                              else NewScalar_val (inputs ! j))])
         else Inl IndexOutOfRange)
      else Inr vars)"
  by pat_completeness auto
termination
  by (relation "measure (\<lambda>(inputs, i, j, vars). length vars - j)") auto

text \<open>The outer loop, \<open>for i := range inputs\<close>, from index \<open>i\<close> on.\<close>

function Gradient_loop ::
  "objective \<Rightarrow> float64 list \<Rightarrow> nat \<Rightarrow> float64 list \<Rightarrow> error + float64 list" where
  "Gradient_loop f inputs i grad =
     (if i < length inputs then
        (case Gradient_vars inputs i 0 (replicate (length inputs) None) of
           Inl e \<Rightarrow> Inl e
         | Inr vars \<Rightarrow>
             (case f vars of
                Inl e \<Rightarrow> Inl e
              | Inr None \<Rightarrow> Inl NilDereference
              | Inr (Some result) \<Rightarrow>
                  (if i < length grad
                   then Gradient_loop f inputs (Suc i) (grad[i := Deriv (dual result)])
                   else Inl IndexOutOfRange)))
      else Inr grad)"
  by pat_completeness auto
termination
  by (relation "measure (\<lambda>(f, inputs, i, grad). length inputs - i)") auto

definition Gradient :: "objective \<Rightarrow> float64 list \<Rightarrow> error + float64 list" where
  "Gradient f inputs = Gradient_loop f inputs 0 (replicate (length inputs) (Fin 0))"

text \<open>
  The sequence of the specification for dimension \<open>i\<close>: \<open>input(point[i])\<close> at \<open>i\<close> and
  \<open>scalar(point[j])\<close> at every other \<open>j\<close>.
\<close>

definition seeded :: "float64 list \<Rightarrow> nat \<Rightarrow> Variable option list" where
  "seeded point i =
     map (\<lambda>j. Some (if j = i then NewInput_val (point ! j) else NewScalar_val (point ! j)))
       [0..<length point]"

text \<open>The function of Scenario 3, \<open>f(v) = Mul(v[0], v[1])\<close>.\<close>

definition product_of_first_two :: objective where
  "product_of_first_two v =
     (if length v \<le> 1 then Inl IndexOutOfRange
      else case (v ! 0, v ! 1) of
             (Some v0, Some v1) \<Rightarrow> Inr (Some (Mul_val v0 v1))
           | _ \<Rightarrow> Inl NilDereference)"

section \<open>The demonstration program\<close>

text \<open>
  The first half of \<open>main\<close>: \<open>x\<close> and \<open>y\<close> are both inputs, \<open>z = x*y + sin(x)\<close>, and the
  program prints \<open>z.Value()\<close> and \<open>z.Deriv()\<close>. The second half makes \<open>x\<close> a scalar and
  prints \<open>z.Deriv()\<close>.
\<close>

definition expression :: "ptr \<Rightarrow> ptr \<Rightarrow> heap \<Rightarrow> (error + ptr) \<times> heap" where
  "expression x y h =
     (case Mul x y h of
        (Inl e, h1) \<Rightarrow> (Inl e, h1)
      | (Inr z1, h1) \<Rightarrow>
          (case Sin x h1 of
             (Inl e, h2) \<Rightarrow> (Inl e, h2)
           | (Inr z2, h2) \<Rightarrow> Add z1 z2 h2))"

definition main_inputs :: "error + float64 \<times> float64" where
  "main_inputs =
     (let (x, h1) = NewInput (Fin 2) [];
          (y, h2) = NewInput (Fin 3) h1
      in case expression x y h2 of
           (Inl e, h3) \<Rightarrow> Inl e
         | (Inr z, h3) \<Rightarrow>
             (case Variable_Value z h3 of
                Inl e \<Rightarrow> Inl e
              | Inr val \<Rightarrow>
                  (case Variable_Deriv z h3 of
                     Inl e \<Rightarrow> Inl e
                   | Inr deriv \<Rightarrow> Inr (val, deriv))))"

text \<open>The same expression as a function of a sequence of two Variables.\<close>

definition expression_objective :: objective where
  "expression_objective v =
     (if length v \<le> 1 then Inl IndexOutOfRange
      else case (v ! 0, v ! 1) of
             (Some x, Some y) \<Rightarrow> Inr (Some (Add_val (Mul_val x y) (Sin_val x)))
           | _ \<Rightarrow> Inl NilDereference)"

section \<open>Reading and writing the heap\<close>

lemma length_put_Value: "length (put_Value p x h) = length h"
  by (simp add: put_Value_def)

lemma length_put_Deriv: "length (put_Deriv p x h) = length h"
  by (simp add: put_Deriv_def)

lemma feq_zero: "feq b (Fin 0) = (b = Fin 0)"
  by (cases b) simp_all

lemma Variable_eq: "(r::Variable)\<lparr>dual := d\<rparr> = \<lparr>dual = d\<rparr>"
  by (cases r) simp

lemma DualNumber_eq:
  "(n::DualNumber)\<lparr>Value := x, Deriv := d\<rparr> = \<lparr>Value = x, Deriv = d\<rparr>"
  "(n::DualNumber)\<lparr>Deriv := d, Value := x\<rparr> = \<lparr>Value = x, Deriv = d\<rparr>"
  by (cases n; simp)+

lemma put_Deriv_put_Value:
  "p < length h \<Longrightarrow> put_Deriv p d (put_Value p x h) = h[p := \<lparr>dual = \<lparr>Value = x, Deriv = d\<rparr>\<rparr>]"
  by (simp add: put_Deriv_def put_Value_def Variable_eq DualNumber_eq)

lemma put_Value_put_Deriv:
  "p < length h \<Longrightarrow> put_Value p x (put_Deriv p d h) = h[p := \<lparr>dual = \<lparr>Value = x, Deriv = d\<rparr>\<rparr>]"
  by (simp add: put_Deriv_def put_Value_def Variable_eq DualNumber_eq)

lemma get_Value_put_Value:
  "get_Value (put_Value p x h) q = (if p = q \<and> q < length h then x else get_Value h q)"
  by (cases "p < length h") (auto simp add: get_Value_def put_Value_def nth_list_update list_update_beyond)

lemma get_Deriv_put_Value:
  "get_Deriv (put_Value p x h) q = get_Deriv h q"
  by (cases "p < length h") (auto simp add: get_Deriv_def put_Value_def nth_list_update list_update_beyond)

lemma get_Value_put_Deriv:
  "get_Value (put_Deriv p x h) q = get_Value h q"
  by (cases "p < length h") (auto simp add: get_Value_def put_Deriv_def nth_list_update list_update_beyond)

lemma get_Deriv_put_Deriv:
  "get_Deriv (put_Deriv p x h) q = (if p = q \<and> q < length h then x else get_Deriv h q)"
  by (cases "p < length h") (auto simp add: get_Deriv_def put_Deriv_def nth_list_update list_update_beyond)

lemmas heap_simps = length_put_Value length_put_Deriv get_Value_put_Value get_Deriv_put_Value
  get_Value_put_Deriv get_Deriv_put_Deriv put_Deriv_put_Value put_Value_put_Deriv

lemma Variable_Add_result:
  assumes "valid h v" "valid h v2"
  shows "Variable_Add v v2 h =
    (None, h[v := \<lparr>dual = \<lparr>Value = fadd (get_Value h v) (get_Value h v2),
                           Deriv = fadd (get_Deriv h v) (get_Deriv h v2)\<rparr>\<rparr>])"
  using assms by (simp add: Variable_Add_def valid_def Let_def heap_simps)

lemma Variable_Sub_result:
  assumes "valid h v" "valid h v2"
  shows "Variable_Sub v v2 h =
    (None, h[v := \<lparr>dual = \<lparr>Value = fsub (get_Value h v) (get_Value h v2),
                           Deriv = fsub (get_Deriv h v) (get_Deriv h v2)\<rparr>\<rparr>])"
  using assms by (simp add: Variable_Sub_def valid_def Let_def heap_simps)

lemma Variable_Mul_result:
  assumes "valid h v" "valid h v2"
  shows "Variable_Mul v v2 h =
    (None, h[v := \<lparr>dual = \<lparr>Value = fmul (get_Value h v) (get_Value h v2),
                           Deriv = fadd (fmul (get_Deriv h v) (get_Value h v2))
                                        (fmul (get_Value h v) (get_Deriv h v2))\<rparr>\<rparr>])"
  using assms by (simp add: Variable_Mul_def valid_def Let_def heap_simps)

lemma Variable_Div_result:
  assumes "valid h v" "valid h v2" "get_Value h v2 \<noteq> Fin 0"
  shows "Variable_Div v v2 h =
    (None, h[v := \<lparr>dual = \<lparr>Value = fdiv (get_Value h v) (get_Value h v2),
                           Deriv = fdiv (fsub (fmul (get_Deriv h v) (get_Value h v2))
                                              (fmul (get_Value h v) (get_Deriv h v2)))
                                        (fmul (get_Value h v2) (get_Value h v2))\<rparr>\<rparr>])"
  using assms by (simp add: Variable_Div_def valid_def Let_def heap_simps feq_zero)

lemma Variable_Div_zero:
  assumes "valid h v2" "get_Value h v2 = Fin 0"
  shows "Variable_Div v v2 h = (Some DivisionByZero, h)"
  using assms by (simp add: Variable_Div_def DivisionByZero_def)

lemma alloc_simp: "alloc r h = (length h, h @ [r])"
  by (simp add: alloc_def)

section \<open>The pure operators\<close>



section \<open>Division\<close>



text \<open>
  Claim C9. For all Variables \<open>v\<close> and \<open>v2\<close> with \<open>v2.value == 0\<close>, \<open>v.Div(v2)\<close> panics with
  division by zero and leaves the heap as it was: nothing has been written into \<open>v\<close>.
\<close>

theorem Div_by_zero_writes_nothing:
  assumes "valid h v" and "valid h v2" and "feq (get_Value h v2) (Fin 0)"
  shows "fst (Variable_Div v v2 h) = Some DivisionByZero
       \<and> snd (Variable_Div v v2 h) = h
       \<and> dual (snd (Variable_Div v v2 h) ! v) = dual (h ! v)"
  using assms by (simp add: Variable_Div_def DivisionByZero_def)

theorem Div_by_zero_writes_nothing_witness:
  "valid [NewVariable_val (Fin 1) (Fin 1), NewScalar_val (Fin 0)] 0
   \<and> valid [NewVariable_val (Fin 1) (Fin 1), NewScalar_val (Fin 0)] 1
   \<and> feq (get_Value [NewVariable_val (Fin 1) (Fin 1), NewScalar_val (Fin 0)] 1) (Fin 0)
   \<and> Variable_Div 0 1 [NewVariable_val (Fin 1) (Fin 1), NewScalar_val (Fin 0)] =
       (Some DivisionByZero, [NewVariable_val (Fin 1) (Fin 1), NewScalar_val (Fin 0)])"
  using Div_by_zero_writes_nothing [of "[NewVariable_val (Fin 1) (Fin 1), NewScalar_val (Fin 0)]" 0 1]
  by (simp add: valid_def get_Value_def NewScalar_val_def prod_eq_iff)

section \<open>The mutating operators\<close>

text \<open>
  Claim C7, as stated, fails when both operands are one Variable: \<open>v.Add(v)\<close> on a
  Variable holding \<open>(1, 1)\<close> leaves it, and so the second operand, with \<open>(2, 2)\<close>.
\<close>

theorem mutating_operators_alias_counterexample:
  "valid [NewInput_val (Fin 1)] 0
   \<and> Variable_Add 0 0 [NewInput_val (Fin 1)] = (None, [NewVariable_val (Fin 2) (Fin 2)])
   \<and> dual (snd (Variable_Add 0 0 [NewInput_val (Fin 1)]) ! 0) \<noteq> dual ([NewInput_val (Fin 1)] ! 0)"
  by (simp add: Variable_Add_result valid_def get_Value_def get_Deriv_def
      NewInput_val_def NewVariable_val_def)

text \<open>
  Claim C7, amended. For all Variables \<open>v\<close> and \<open>v2\<close>, the same or not, \<open>v.Add(v2)\<close>,
  \<open>v.Sub(v2)\<close>, \<open>v.Mul(v2)\<close> and \<open>v.Div(v2)\<close> write the result of the corresponding law
  into \<open>v\<close> and change no other Variable (\<open>Div\<close> with a zero divisor panics and writes
  nothing); when \<open>v\<close> and \<open>v2\<close> are distinct Variables, the Dual Value of \<open>v2\<close> is
  unchanged. After \<open>v.Mul(v2)\<close>, the value of \<open>v\<close> is the product and its tangent
  follows the product rule.
\<close>

theorem mutating_operators_write_receiver:
  assumes "valid h v" and "valid h v2"
    and "dual (h ! v) = \<lparr>Value = a, Deriv = a'\<rparr>"
    and "dual (h ! v2) = \<lparr>Value = b, Deriv = b'\<rparr>"
  shows "Variable_Add v v2 h =
           (None, h[v := \<lparr>dual = \<lparr>Value = fadd a b, Deriv = fadd a' b'\<rparr>\<rparr>])
       \<and> Variable_Sub v v2 h =
           (None, h[v := \<lparr>dual = \<lparr>Value = fsub a b, Deriv = fsub a' b'\<rparr>\<rparr>])
       \<and> Variable_Mul v v2 h =
           (None, h[v := \<lparr>dual = \<lparr>Value = fmul a b,
              Deriv = fadd (fmul a' b) (fmul a b')\<rparr>\<rparr>])
       \<and> Variable_Div v v2 h =
           (if feq b (Fin 0) then (Some DivisionByZero, h)
            else (None, h[v := \<lparr>dual = \<lparr>Value = fdiv a b,
              Deriv = fdiv (fsub (fmul a' b) (fmul a b')) (fmul b b)\<rparr>\<rparr>]))
       \<and> (v \<noteq> v2 \<longrightarrow>
            dual (snd (Variable_Add v v2 h) ! v2) = \<lparr>Value = b, Deriv = b'\<rparr>
          \<and> dual (snd (Variable_Sub v v2 h) ! v2) = \<lparr>Value = b, Deriv = b'\<rparr>
          \<and> dual (snd (Variable_Mul v v2 h) ! v2) = \<lparr>Value = b, Deriv = b'\<rparr>
          \<and> dual (snd (Variable_Div v v2 h) ! v2) = \<lparr>Value = b, Deriv = b'\<rparr>)"
proof -
  have vals: "get_Value h v = a" "get_Deriv h v = a'" "get_Value h v2 = b" "get_Deriv h v2 = b'"
    using assms(3,4) by (simp_all add: get_Value_def get_Deriv_def)
  have add: "Variable_Add v v2 h =
      (None, h[v := \<lparr>dual = \<lparr>Value = fadd a b, Deriv = fadd a' b'\<rparr>\<rparr>])"
    using Variable_Add_result [OF assms(1,2)] by (simp add: vals)
  have sub: "Variable_Sub v v2 h =
      (None, h[v := \<lparr>dual = \<lparr>Value = fsub a b, Deriv = fsub a' b'\<rparr>\<rparr>])"
    using Variable_Sub_result [OF assms(1,2)] by (simp add: vals)
  have mul: "Variable_Mul v v2 h =
      (None, h[v := \<lparr>dual = \<lparr>Value = fmul a b, Deriv = fadd (fmul a' b) (fmul a b')\<rparr>\<rparr>])"
    using Variable_Mul_result [OF assms(1,2)] by (simp add: vals)
  have div: "Variable_Div v v2 h =
      (if feq b (Fin 0) then (Some DivisionByZero, h)
       else (None, h[v := \<lparr>dual = \<lparr>Value = fdiv a b,
              Deriv = fdiv (fsub (fmul a' b) (fmul a b')) (fmul b b)\<rparr>\<rparr>]))"
  proof (cases "b = Fin 0")
    case True
    then show ?thesis using Variable_Div_zero [OF assms(2)] by (simp add: vals)
  next
    case False
    then have "get_Value h v2 \<noteq> Fin 0" by (simp add: vals)
    from Variable_Div_result [OF assms(1,2) this] False show ?thesis
      by (simp add: vals feq_zero)
  qed
  have other: "v \<noteq> v2 \<Longrightarrow> dual (h[v := r] ! v2) = \<lparr>Value = b, Deriv = b'\<rparr>" for r
    using assms(4) by simp
  show ?thesis
    unfolding add sub mul div using other assms(4) by simp
qed

theorem mutating_operators_write_receiver_witness:
  "valid [NewInput_val (Fin 2), NewInput_val (Fin 3)] 0
   \<and> valid [NewInput_val (Fin 2), NewInput_val (Fin 3)] 1
   \<and> (0::nat) \<noteq> 1
   \<and> Variable_Mul 0 1 [NewInput_val (Fin 2), NewInput_val (Fin 3)] =
       (None, [\<lparr>dual = \<lparr>Value = Fin 6, Deriv = Fin 5\<rparr>\<rparr>, NewInput_val (Fin 3)])
   \<and> dual (snd (Variable_Mul 0 1 [NewInput_val (Fin 2), NewInput_val (Fin 3)]) ! 1) =
       \<lparr>Value = Fin 3, Deriv = Fin 1\<rparr>"
  using mutating_operators_write_receiver [of "[NewInput_val (Fin 2), NewInput_val (Fin 3)]" 0 1
      "Fin 2" "Fin 1" "Fin 3" "Fin 1"]
  by (simp add: valid_def NewInput_val_def)

subsection \<open>One Variable as both operands\<close>







section \<open>Purity\<close>

lemma pure_frame:
  "valid h q \<Longrightarrow> snd (Add v1 v2 h) ! q = h ! q"
  "valid h q \<Longrightarrow> snd (Mul v1 v2 h) ! q = h ! q"
  "valid h q \<Longrightarrow> snd (Sin v h) ! q = h ! q"
  "valid h q \<Longrightarrow> snd (Cos v h) ! q = h ! q"
  "valid h q \<Longrightarrow> snd (Exp v h) ! q = h ! q"
  "valid h q \<Longrightarrow> snd (Log v h) ! q = h ! q"
  "valid h q \<Longrightarrow> snd (Pow_fun v e h) ! q = h ! q"
  by (simp_all add: Add_def Mul_def Sin_def Cos_def Exp_def Log_def Pow_fun_def alloc_def
      valid_def nth_append split: sum.splits)

text \<open>
  Claim C6. For all Variables \<open>v1\<close> and \<open>v2\<close>, after the pure \<open>Add\<close> or \<open>Mul\<close> of the two, or
  \<open>Sin\<close>, \<open>Cos\<close>, \<open>Exp\<close>, \<open>Log\<close> or \<open>Pow\<close> of either, whether the call returns or panics,
  the Dual Values stored in \<open>v1\<close> and \<open>v2\<close> are what they were before the call.
\<close>

theorem pure_functions_leave_arguments:
  assumes "valid h v1" and "valid h v2"
  shows "\<forall>r \<in> set [Add v1 v2 h, Mul v1 v2 h,
                    Sin v1 h, Cos v1 h, Exp v1 h, Log v1 h, Pow_fun v1 e h,
                    Sin v2 h, Cos v2 h, Exp v2 h, Log v2 h, Pow_fun v2 e h].
           dual (snd r ! v1) = dual (h ! v1) \<and> dual (snd r ! v2) = dual (h ! v2)"
  using assms by (simp add: pure_frame)

theorem pure_functions_leave_arguments_witness:
  "valid [NewInput_val (Fin 2), NewInput_val (Fin 3)] 0
   \<and> valid [NewInput_val (Fin 2), NewInput_val (Fin 3)] 1
   \<and> Mul 0 1 [NewInput_val (Fin 2), NewInput_val (Fin 3)]
       \<in> set [Add 0 1 [NewInput_val (Fin 2), NewInput_val (Fin 3)],
               Mul 0 1 [NewInput_val (Fin 2), NewInput_val (Fin 3)]]
   \<and> dual (snd (Mul 0 1 [NewInput_val (Fin 2), NewInput_val (Fin 3)]) ! 0) =
       \<lparr>Value = Fin 2, Deriv = Fin 1\<rparr>
   \<and> dual (snd (Mul 0 1 [NewInput_val (Fin 2), NewInput_val (Fin 3)]) ! 1) =
       \<lparr>Value = Fin 3, Deriv = Fin 1\<rparr>"
  using pure_functions_leave_arguments [of "[NewInput_val (Fin 2), NewInput_val (Fin 3)]" 0 1 "Fin 2"]
  by (simp add: valid_def NewInput_val_def)

section \<open>Elementary functions\<close>

text \<open>
  Claim C4. For every Variable \<open>v\<close>, \<open>Log(v)\<close> fails if and only if \<open>v.value <= 0\<close>, and
  the failure is a domain error; otherwise it returns a new Variable with value
  \<open>log(v.value)\<close> and tangent \<open>v.tangent / v.value\<close>, which for a finite positive value
  and a finite tangent are the natural logarithm and the quotient of the reals.
\<close>

theorem Log_domain:
  assumes "valid h v" and "dual (h ! v) = \<lparr>Value = x, Deriv = d\<rparr>"
  shows "((\<exists>e. fst (Log v h) = Inl e) \<longleftrightarrow> fle x (Fin 0))
       \<and> (\<forall>e. fst (Log v h) = Inl e \<longrightarrow> DomainError e)
       \<and> (\<not> fle x (Fin 0) \<longrightarrow>
            Log v h = (Inr (length h),
                       h @ [\<lparr>dual = \<lparr>Value = log_f x, Deriv = fdiv d x\<rparr>\<rparr>]))
       \<and> (\<forall>r t. x = Fin r \<and> d = Fin t \<and> 0 < r \<longrightarrow>
            Log v h = (Inr (length h),
                       h @ [\<lparr>dual = \<lparr>Value = Fin (ln r), Deriv = Fin (t / r)\<rparr>\<rparr>]))"
  using assms
  by (auto simp add: Log_def Log_val_def alloc_simp DomainError_def log_f_def)

theorem Log_domain_witness:
  "valid [NewInput_val (Fin 1), NewScalar_val (Fin (- 1))] 0
   \<and> \<not> fle (Fin 1) (Fin 0)
   \<and> Log 0 [NewInput_val (Fin 1), NewScalar_val (Fin (- 1))] =
       (Inr 2, [NewInput_val (Fin 1), NewScalar_val (Fin (- 1)),
                \<lparr>dual = \<lparr>Value = Fin 0, Deriv = Fin 1\<rparr>\<rparr>])
   \<and> fle (Fin (- 1)) (Fin 0)
   \<and> (\<exists>e. fst (Log 1 [NewInput_val (Fin 1), NewScalar_val (Fin (- 1))]) = Inl e \<and> DomainError e)"
  using Log_domain [of "[NewInput_val (Fin 1), NewScalar_val (Fin (- 1))]" 0 "Fin 1" "Fin 1"]
    Log_domain [of "[NewInput_val (Fin 1), NewScalar_val (Fin (- 1))]" 1 "Fin (- 1)" "Fin 0"]
  by (auto simp add: valid_def NewInput_val_def NewScalar_val_def)

subsection \<open>Pow\<close>

text \<open>
  \<open>Pow\<close> panics exactly when the value is zero and the exponent is not positive, and for
  a finite positive base the result is the power and its derivative.
\<close>

lemma Pow_fails_iff:
  assumes "valid h v" and "dual (h ! v) = \<lparr>Value = x, Deriv = d\<rparr>"
  shows "((\<exists>err. fst (Pow_fun v e h) = Inl err) \<longleftrightarrow> feq x (Fin 0) \<and> fle e (Fin 0))
       \<and> (\<forall>err. fst (Pow_fun v e h) = Inl err \<longrightarrow> DomainError err)"
  using assms
  by (auto simp add: Pow_fun_def Pow_val_def alloc_simp DomainError_def Let_def)

lemma Pow_positive_base:
  assumes "valid h v" and "dual (h ! v) = \<lparr>Value = Fin x, Deriv = Fin d\<rparr>" and "0 < x"
  shows "Pow_fun v (Fin e) h =
           (Inr (length h),
            h @ [\<lparr>dual = \<lparr>Value = Fin (x powr e), Deriv = Fin (e * x powr (e - 1) * d)\<rparr>\<rparr>])"
proof -
  have "x powr (e - 1) * x = x powr e"
    using assms(3) by (simp add: powr_diff)
  then show ?thesis
    using assms
    by (auto simp add: Pow_fun_def Pow_val_def alloc_simp Let_def pow_f_def fsub_def)
qed

text \<open>
  Claim C3 says that, unless the value is zero and the exponent is not positive, \<open>Pow\<close>
  returns the value \<open>v.value^e\<close>. The code computes the value as
  \<open>pow(v.value, e - 1) * v.value\<close>. For the value 0 and the exponent 1/2 the test lets
  the call through, \<open>pow(0, -1/2)\<close> is \<open>+Inf\<close>, and the value returned is
  \<open>+Inf * 0 = NaN\<close>, where \<open>pow(0, 1/2)\<close> is 0; the tangent of the scalar is NaN too.
\<close>

theorem Pow_zero_base_fractional_exponent:
  "valid [NewScalar_val (Fin 0)] 0
   \<and> \<not> (feq (Fin 0) (Fin 0) \<and> fle (Fin (1/2)) (Fin 0))
   \<and> Pow_fun 0 (Fin (1/2)) [NewScalar_val (Fin 0)] =
       (Inr 1, [NewScalar_val (Fin 0), \<lparr>dual = \<lparr>Value = NaN, Deriv = NaN\<rparr>\<rparr>])
   \<and> pow_f (Fin 0) (Fin (1/2)) = Fin 0"
  by (simp add: Pow_fun_def Pow_val_def alloc_simp Let_def pow_f_def fsub_def valid_def
      NewScalar_val_def signed_inf_def)

section \<open>The gradient driver's loops\<close>

text \<open>
  The equations of the two loops rewrite a call into a term that contains the next call;
  they are applied by hand.
\<close>

declare Gradient_vars.simps [simp del]
declare Gradient_loop.simps [simp del]

lemma Gradient_vars_from:
  "length vars = length inputs \<Longrightarrow> j \<le> length inputs \<Longrightarrow>
   Gradient_vars inputs i j vars =
     Inr (take j vars @ map (\<lambda>j. Some (if j = i then NewInput_val (inputs ! j)
                                         else NewScalar_val (inputs ! j))) [j..<length inputs])"
proof (induction inputs i j vars rule: Gradient_vars.induct)
  case (1 inputs i j vars)
  show ?case
  proof (cases "j < length vars")
    case True
    then have lt: "j < length inputs" using "1.prems" by simp
    let ?x = "Some (if i = j then NewInput_val (inputs ! j) else NewScalar_val (inputs ! j))"
    have "Gradient_vars inputs i j vars = Gradient_vars inputs i (Suc j) (vars[j := ?x])"
      using True lt by (subst Gradient_vars.simps) simp
    also have "\<dots> = Inr (take (Suc j) (vars[j := ?x]) @
        map (\<lambda>j. Some (if j = i then NewInput_val (inputs ! j)
                        else NewScalar_val (inputs ! j))) [Suc j..<length inputs])"
      using "1.IH" [OF True lt] "1.prems" lt by simp
    also have "take (Suc j) (vars[j := ?x]) = take j vars @ [?x]"
      using True by (simp add: take_Suc_conv_app_nth)
    finally show ?thesis
      using lt by (simp add: upt_conv_Cons)
  next
    case False
    then have "j = length inputs" using "1.prems" by simp
    then show ?thesis
      using False "1.prems" by (subst Gradient_vars.simps) simp
  qed
qed

lemma Gradient_vars_seeded:
  "Gradient_vars inputs i 0 (replicate (length inputs) None) = Inr (seeded inputs i)"
  using Gradient_vars_from [of "replicate (length inputs) None" inputs 0 i]
  by (simp add: seeded_def)

lemma Gradient_loop_from:
  "length grad = length inputs \<Longrightarrow> i \<le> length inputs \<Longrightarrow>
   \<forall>k<length inputs. i \<le> k \<longrightarrow> (\<exists>r. f (seeded inputs k) = Inr (Some r)) \<Longrightarrow>
   Gradient_loop f inputs i grad =
     Inr (take i grad @
          map (\<lambda>k. Deriv (dual (the (projr (f (seeded inputs k)))))) [i..<length inputs])"
proof (induction f inputs i grad rule: Gradient_loop.induct)
  case (1 f inputs i grad)
  show ?case
  proof (cases "i < length inputs")
    case True
    then obtain r where r: "f (seeded inputs i) = Inr (Some r)"
      using "1.prems"(3) by blast
    have lt: "i < length grad" using True "1.prems"(1) by simp
    have "Gradient_loop f inputs i grad =
        Gradient_loop f inputs (Suc i) (grad[i := Deriv (dual r)])"
      using True lt r by (subst Gradient_loop.simps) (simp add: Gradient_vars_seeded)
    also have "\<dots> = Inr (take (Suc i) (grad[i := Deriv (dual r)]) @
        map (\<lambda>k. Deriv (dual (the (projr (f (seeded inputs k)))))) [Suc i..<length inputs])"
      using "1.IH" [OF True Gradient_vars_seeded r refl lt] "1.prems" True by simp
    also have "take (Suc i) (grad[i := Deriv (dual r)]) = take i grad @ [Deriv (dual r)]"
      using lt by (simp add: take_Suc_conv_app_nth)
    finally show ?thesis
      using True r by (simp add: upt_conv_Cons)
  next
    case False
    then have "i = length inputs" using "1.prems" by simp
    then show ?thesis
      using "1.prems" by (subst Gradient_loop.simps) simp
  qed
qed

lemma Gradient_returns:
  assumes "\<forall>i<length point. \<exists>r. f (seeded point i) = Inr (Some r)"
  shows "Gradient f point =
     Inr (map (\<lambda>i. Deriv (dual (the (projr (f (seeded point i)))))) [0..<length point])"
  using Gradient_loop_from [of "replicate (length point) (Fin 0)" point 0 f] assms
  by (simp add: Gradient_def)

text \<open>Conversely, the driver returns only if every pass does.\<close>

lemma Gradient_loop_returns_only_if:
  "Gradient_loop f inputs i grad = Inr g \<Longrightarrow> i \<le> k \<Longrightarrow> k < length inputs \<Longrightarrow>
   \<exists>r. f (seeded inputs k) = Inr (Some r)"
proof (induction f inputs i grad rule: Gradient_loop.induct)
  case (1 f inputs i grad)
  have lt: "i < length inputs" using "1.prems" by simp
  have unfolded: "Gradient_loop f inputs i grad =
      (case f (seeded inputs i) of
         Inl e \<Rightarrow> Inl e
       | Inr None \<Rightarrow> Inl NilDereference
       | Inr (Some result) \<Rightarrow>
           (if i < length grad
            then Gradient_loop f inputs (Suc i) (grad[i := Deriv (dual result)])
            else Inl IndexOutOfRange))"
    using lt by (subst Gradient_loop.simps) (simp add: Gradient_vars_seeded)
  from "1.prems"(1) obtain r where r: "f (seeded inputs i) = Inr (Some r)"
    and len: "i < length grad"
    and rest: "Gradient_loop f inputs (Suc i) (grad[i := Deriv (dual r)]) = Inr g"
    unfolding unfolded by (auto split: sum.splits option.splits if_splits)
  show ?case
  proof (cases "k = i")
    case True
    then show ?thesis using r by simp
  next
    case False
    then have "Suc i \<le> k" using "1.prems"(2) by simp
    from "1.IH" [OF lt Gradient_vars_seeded r refl len rest this "1.prems"(3)]
    show ?thesis .
  qed
qed

lemma seeded_two:
  "seeded [a, b] 0 = [Some (NewInput_val a), Some (NewScalar_val b)]"
  "seeded [a, b] 1 = [Some (NewScalar_val a), Some (NewInput_val b)]"
  by (simp_all add: seeded_def upt_conv_Cons)

lemma seeded_nth:
  "j < length point \<Longrightarrow>
   seeded point i ! j =
     Some \<lparr>dual = \<lparr>Value = point ! j, Deriv = (if j = i then Fin 1 else Fin 0)\<rparr>\<rparr>"
  by (simp add: seeded_def NewInput_val_def NewScalar_val_def)

text \<open>
  Claim C1. For every function \<open>f\<close> over Variables and every point of length \<open>n\<close>, if \<open>f\<close>
  returns a Variable on each of the \<open>n\<close> seeded sequences then \<open>Gradient(f, point)\<close> returns
  a vector of length \<open>n\<close> whose \<open>i\<close>-th entry is the tangent of \<open>f\<close> on the sequence seeded
  for dimension \<open>i\<close>. That sequence has the value \<open>point[j]\<close> at every \<open>j\<close>, with tangent 1
  at \<open>j = i\<close> and tangent 0 elsewhere. In particular
  \<open>Gradient(f, [2.0, 3.0])\<close> with \<open>f(v) = Mul(v[0], v[1])\<close> returns \<open>[3.0, 2.0]\<close>.
\<close>

theorem Gradient_seeds_each_dimension:
  "((\<forall>i<length point. \<exists>r. f (seeded point i) = Inr (Some r)) \<longrightarrow>
      (\<exists>g. Gradient f point = Inr g \<and> length g = length point \<and>
           (\<forall>i<length point. \<exists>r. f (seeded point i) = Inr (Some r) \<and> g ! i = Deriv (dual r))))
   \<and> (\<forall>i<length point. length (seeded point i) = length point \<and>
         (\<forall>j<length point. seeded point i ! j =
            Some \<lparr>dual = \<lparr>Value = point ! j, Deriv = (if j = i then Fin 1 else Fin 0)\<rparr>\<rparr>))
   \<and> Gradient product_of_first_two [Fin 2, Fin 3] = Inr [Fin 3, Fin 2]"
proof (intro conjI impI)
  assume ok: "\<forall>i<length point. \<exists>r. f (seeded point i) = Inr (Some r)"
  let ?g = "map (\<lambda>i. Deriv (dual (the (projr (f (seeded point i)))))) [0..<length point]"
  have "Gradient f point = Inr ?g" using Gradient_returns [OF ok] .
  moreover have "length ?g = length point" by simp
  moreover have "\<forall>i<length point. \<exists>r. f (seeded point i) = Inr (Some r) \<and> ?g ! i = Deriv (dual r)"
  proof (intro allI impI)
    fix i assume i: "i < length point"
    then obtain r where "f (seeded point i) = Inr (Some r)" using ok by blast
    then show "\<exists>r. f (seeded point i) = Inr (Some r) \<and> ?g ! i = Deriv (dual r)"
      using i by simp
  qed
  ultimately show "\<exists>g. Gradient f point = Inr g \<and> length g = length point \<and>
      (\<forall>i<length point. \<exists>r. f (seeded point i) = Inr (Some r) \<and> g ! i = Deriv (dual r))"
    by blast
next
  show "\<forall>i<length point. length (seeded point i) = length point \<and>
         (\<forall>j<length point. seeded point i ! j =
            Some \<lparr>dual = \<lparr>Value = point ! j, Deriv = (if j = i then Fin 1 else Fin 0)\<rparr>\<rparr>)"
    by (simp add: seeded_nth) (simp add: seeded_def)
next
  have f0: "product_of_first_two (seeded [Fin 2, Fin 3] 0) =
      Inr (Some \<lparr>dual = \<lparr>Value = Fin 6, Deriv = Fin 3\<rparr>\<rparr>)"
    unfolding seeded_two
    by (simp add: product_of_first_two_def Mul_val_def NewInput_val_def NewScalar_val_def)
  have f1: "product_of_first_two (seeded [Fin 2, Fin 3] 1) =
      Inr (Some \<lparr>dual = \<lparr>Value = Fin 6, Deriv = Fin 2\<rparr>\<rparr>)"
    unfolding seeded_two
    by (simp add: product_of_first_two_def Mul_val_def NewInput_val_def NewScalar_val_def)
  have "\<forall>i<length [Fin 2, Fin 3]. \<exists>r. product_of_first_two (seeded [Fin 2, Fin 3] i) = Inr (Some r)"
    using f0 f1 by (simp add: less_Suc_eq)
  from Gradient_returns [OF this] show "Gradient product_of_first_two [Fin 2, Fin 3] = Inr [Fin 3, Fin 2]"
    using f0 f1 by (simp add: upt_conv_Cons)
qed

theorem Gradient_seeds_each_dimension_witness:
  "product_of_first_two (seeded [Fin 2, Fin 3] 0) =
     Inr (Some \<lparr>dual = \<lparr>Value = Fin 6, Deriv = Fin 3\<rparr>\<rparr>)
   \<and> product_of_first_two (seeded [Fin 2, Fin 3] 1) =
     Inr (Some \<lparr>dual = \<lparr>Value = Fin 6, Deriv = Fin 2\<rparr>\<rparr>)
   \<and> (\<exists>g. Gradient product_of_first_two [Fin 2, Fin 3] = Inr g \<and> length g = 2
        \<and> g ! 0 = Fin 3 \<and> g ! 1 = Fin 2)
   \<and> seeded [Fin 2, Fin 3] 1 ! 0 = Some \<lparr>dual = \<lparr>Value = Fin 2, Deriv = Fin 0\<rparr>\<rparr>
   \<and> seeded [Fin 2, Fin 3] 1 ! 1 = Some \<lparr>dual = \<lparr>Value = Fin 3, Deriv = Fin 1\<rparr>\<rparr>"
proof -
  have f0: "product_of_first_two (seeded [Fin 2, Fin 3] 0) =
      Inr (Some \<lparr>dual = \<lparr>Value = Fin 6, Deriv = Fin 3\<rparr>\<rparr>)"
    unfolding seeded_two
    by (simp add: product_of_first_two_def Mul_val_def NewInput_val_def NewScalar_val_def)
  have f1: "product_of_first_two (seeded [Fin 2, Fin 3] 1) =
      Inr (Some \<lparr>dual = \<lparr>Value = Fin 6, Deriv = Fin 2\<rparr>\<rparr>)"
    unfolding seeded_two
    by (simp add: product_of_first_two_def Mul_val_def NewInput_val_def NewScalar_val_def)
  have hyp: "\<forall>i<length [Fin 2, Fin 3]. \<exists>r. product_of_first_two (seeded [Fin 2, Fin 3] i) = Inr (Some r)"
    using f0 f1 by (simp add: less_Suc_eq)
  show ?thesis
    using hyp Gradient_seeds_each_dimension [of "[Fin 2, Fin 3]" product_of_first_two] f0 f1
    by (simp add: less_Suc_eq)
qed

section \<open>The demonstration program's first result\<close>

text \<open>Sine and cosine of 2, from their Maclaurin polynomials of degree 15 and 16.\<close>

lemma sum_upto_17:
  "(\<Sum>m<17. f m) = f (0::nat) + f 1 + f 2 + f 3 + f 4 + f 5 + f 6 + f 7 + f 8 + f 9 + f 10
     + f 11 + f 12 + f 13 + f 14 + f 15 + (f 16 :: real)"
  by (simp add: eval_nat_numeral lessThan_Suc)

lemma sum_upto_18:
  "(\<Sum>m<18. f m) = f (0::nat) + f 1 + f 2 + f 3 + f 4 + f 5 + f 6 + f 7 + f 8 + f 9 + f 10
     + f 11 + f 12 + f 13 + f 14 + f 15 + f 16 + (f 17 :: real)"
  by (simp add: eval_nat_numeral lessThan_Suc)

lemma sin_two_partial_sum: "(\<Sum>m<17. sin_coeff m * (2::real) ^ m) = 580598114 / 638512875"
  unfolding sum_upto_17 by (simp add: sin_coeff_def fact_numeral)

lemma cos_two_partial_sum: "(\<Sum>m<18. cos_coeff m * (2::real) ^ m) = - (265715113 / 638512875)"
  unfolding sum_upto_18 by (simp add: cos_coeff_def fact_numeral)

lemma sin_two_bounds: "\<bar>sin (2::real) - 580598114 / 638512875\<bar> \<le> 4 / 10854718875"
proof -
  have "\<bar>sin (2::real) - (\<Sum>m<17. sin_coeff m * 2 ^ m)\<bar> \<le> inverse (fact 17) * \<bar>2\<bar> ^ 17"
    by (rule Maclaurin_sin_bound)
  also have "inverse (fact 17) * \<bar>2::real\<bar> ^ 17 = 4 / 10854718875"
    by (simp add: fact_numeral)
  finally show ?thesis by (simp only: sin_two_partial_sum)
qed

lemma cos_two_bounds: "\<bar>cos (2::real) + 265715113 / 638512875\<bar> \<le> 4 / 97692469875"
proof -
  obtain t :: real where
    t: "cos 2 = (\<Sum>m<18. cos_coeff m * 2 ^ m) + (cos (t + 1/2 * real (18::nat) * pi) / fact 18) * 2 ^ 18"
    using Maclaurin_cos_expansion [of 2 18] by blast
  define c where "c = cos (t + 1/2 * real (18::nat) * pi)"
  have c: "\<bar>c\<bar> \<le> 1" unfolding c_def by (rule abs_cos_le_one)
  have "\<bar>c / fact 18 * 2 ^ 18\<bar> = \<bar>c\<bar> * (4 / 97692469875)"
    by (simp add: abs_mult fact_numeral)
  also have "\<dots> \<le> 1 * (4 / 97692469875)"
    using c by (intro mult_right_mono) simp_all
  finally have "\<bar>c / fact 18 * 2 ^ 18\<bar> \<le> 4 / 97692469875" by simp
  moreover have "cos 2 + 265715113 / 638512875 = c / fact 18 * 2 ^ 18"
    using t unfolding c_def cos_two_partial_sum by simp
  ultimately show ?thesis by simp
qed

lemma six_plus_sin_two: "\<bar>6 + sin (2::real) - 6909297 / 1000000\<bar> < 5 / 10000000"
  using sin_two_bounds by (simp add: abs_if split: if_splits)

lemma five_plus_cos_two: "\<bar>5 + cos (2::real) - 4583853 / 1000000\<bar> < 5 / 10000000"
  using cos_two_bounds by (simp add: abs_if split: if_splits)

text \<open>The gradient of the expression at \<open>(2, 3)\<close> is \<open>(3 + cos 2, 2)\<close>.\<close>

lemma expression_gradient:
  "Gradient expression_objective [Fin 2, Fin 3] = Inr [Fin (3 + cos 2), Fin 2]"
proof -
  have f0: "expression_objective (seeded [Fin 2, Fin 3] 0) =
      Inr (Some \<lparr>dual = \<lparr>Value = Fin (6 + sin 2), Deriv = Fin (3 + cos 2)\<rparr>\<rparr>)"
    unfolding seeded_two
    by (simp add: expression_objective_def Add_val_def Mul_val_def Sin_val_def
        NewInput_val_def NewScalar_val_def sin_f_def cos_f_def)
  have f1: "expression_objective (seeded [Fin 2, Fin 3] 1) =
      Inr (Some \<lparr>dual = \<lparr>Value = Fin (6 + sin 2), Deriv = Fin 2\<rparr>\<rparr>)"
    unfolding seeded_two
    by (simp add: expression_objective_def Add_val_def Mul_val_def Sin_val_def
        NewInput_val_def NewScalar_val_def sin_f_def cos_f_def)
  have "\<forall>i<length [Fin 2, Fin 3]. \<exists>r. expression_objective (seeded [Fin 2, Fin 3] i) = Inr (Some r)"
    using f0 f1 by (simp add: less_Suc_eq)
  from Gradient_returns [OF this] show ?thesis
    using f0 f1 by (simp add: upt_conv_Cons)
qed

text \<open>
  Claim C8. With \<open>x = input(2.0)\<close> and \<open>y = input(3.0)\<close>, the expression
  \<open>z = Add(Mul(x, y), Sin(x))\<close> has the value \<open>6 + sin 2\<close>, which rounds to 6.909297, and
  the tangent \<open>5 + cos 2\<close>, which rounds to 4.583853. The tangent is the derivative along
  \<open>(1, 1)\<close>: the sum of the two entries of the gradient.
\<close>

theorem main_prints_directional_derivative:
  "main_inputs = Inr (Fin (6 + sin 2), Fin (5 + cos 2))
   \<and> \<bar>6 + sin (2::real) - 6909297 / 1000000\<bar> < 5 / 10000000
   \<and> \<bar>5 + cos (2::real) - 4583853 / 1000000\<bar> < 5 / 10000000
   \<and> Gradient expression_objective [Fin 2, Fin 3] = Inr [Fin (3 + cos 2), Fin 2]
   \<and> 5 + cos (2::real) = (3 + cos 2) * 1 + 2 * 1"
proof -
  have "main_inputs = Inr (Fin (6 + sin 2), Fin (5 + cos 2))"
    by (simp add: main_inputs_def expression_def NewInput_def NewInput_val_def alloc_simp
        Mul_def Sin_def Add_def Mul_val_def Sin_val_def Add_val_def valid_def
        Variable_Value_def Variable_Deriv_def get_Value_def get_Deriv_def
        sin_f_def cos_f_def nth_append)
  then show ?thesis
    using six_plus_sin_two five_plus_cos_two expression_gradient by simp
qed

end
